theory Spec2Isabelle
  imports Complex_Main
begin

section \<open>Python values, dictionaries and exceptions\<close>

text \<open>
  The service returns plain dictionaries (\<open>Dict[str, Any]\<close>). A dictionary is an
  association list in insertion order; its values are the JSON-like values below.
  A float is the rational number that the double denotes (every finite double is a dyadic
  rational).
\<close>

type_synonym pyfloat = rat

datatype pyval =
    PNone
  | PBool bool
  | PInt int
  | PFloat pyfloat
  | PStr string
  | PList "pyval list"
  | PDict "(string \<times> pyval) list"

type_synonym dict = "(string \<times> pyval) list"

definition dict_get :: "dict \<Rightarrow> string \<Rightarrow> pyval option" where
  "dict_get d k = map_of d k"

text \<open>\<open>d[k] = v\<close>: an existing key keeps its position, a new key goes to the end.\<close>

primrec dict_setitem :: "dict \<Rightarrow> string \<Rightarrow> pyval \<Rightarrow> dict" where
  "dict_setitem [] k v = [(k, v)]"
| "dict_setitem (p # ps) k v = (if fst p = k then (k, v) # ps else p # dict_setitem ps k v)"

text \<open>\<open>d.update(other)\<close>: the items of \<open>other\<close> are stored one by one, in order.\<close>

primrec dict_update :: "dict \<Rightarrow> dict \<Rightarrow> dict" where
  "dict_update d [] = d"
| "dict_update d (p # ps) = dict_update (dict_setitem d (fst p) (snd p)) ps"

text \<open>\<open>d.get(k, default)\<close>.\<close>

definition dict_get_default :: "dict \<Rightarrow> string \<Rightarrow> pyval \<Rightarrow> pyval" where
  "dict_get_default d k dflt = (case dict_get d k of None \<Rightarrow> dflt | Some v \<Rightarrow> v)"

text \<open>
  Exceptions are the instances of Python's \<open>Exception\<close> that the client library, the
  attribute reads and the arithmetic of the service can raise. Each carries the text that
  \<open>str(e)\<close> returns. \<open>UnexpectedResponse\<close> is the client library's protocol error,
  \<open>ConnectionError\<close> the built-in one; \<open>OtherException\<close> stands for every other
  subclass of \<open>Exception\<close>. \<open>KeyboardInterrupt\<close> and \<open>SystemExit\<close>, which are not
  subclasses of \<open>Exception\<close> and which no \<open>except Exception\<close> catches, are signals to
  the process and not failures of a call; they are not modelled.
\<close>

datatype exn =
    UnexpectedResponse string
  | ConnectionError string
  | AttributeError string
  | TypeError string
  | KeyError string
  | OtherException string

fun str :: "exn \<Rightarrow> string" where
  "str (UnexpectedResponse m) = m"
| "str (ConnectionError m) = m"
| "str (AttributeError m) = m"
| "str (TypeError m) = m"
| "str (KeyError m) = m"
| "str (OtherException m) = m"

text \<open>An attribute of an object of the client library: there or not (\<open>hasattr\<close>).\<close>

datatype 'a attr = Absent | Present 'a

text \<open>\<open>getattr(obj, name, default)\<close>.\<close>

definition getattr_default :: "'a attr \<Rightarrow> 'a \<Rightarrow> 'a" where
  "getattr_default a dflt = (case a of Absent \<Rightarrow> dflt | Present v \<Rightarrow> v)"

definition quoted :: "string \<Rightarrow> string" where
  "quoted s = CHR 0x27 # s @ [CHR 0x27]"

text \<open>A count attribute of the client library is typed \<open>Optional[int]\<close>.\<close>

definition count_val :: "int option \<Rightarrow> pyval" where
  "count_val c = (case c of None \<Rightarrow> PNone | Some n \<Rightarrow> PInt n)"

text \<open>
  \<open>a + b\<close> as \<open>sum\<close> meets it: the accumulator is an \<open>int\<close>, the items are the
  counts stored in the dictionaries (an \<open>int\<close>, or \<open>None\<close>, on which \<open>+\<close> raises).
\<close>

fun py_add :: "pyval \<Rightarrow> pyval \<Rightarrow> exn + pyval" where
  "py_add (PInt a) (PInt b) = Inr (PInt (a + b))"
| "py_add (PInt a) PNone =
     Inl (TypeError (''unsupported operand type(s) for +: 'int' and '' @ quoted ''NoneType''))"
| "py_add a b = Inl (TypeError ''unsupported operand type(s) for +'')"

text \<open>\<open>sum(items)\<close>: starts from 0 and adds from the left; the first failing \<open>+\<close> ends it.\<close>

primrec py_sum_from :: "pyval \<Rightarrow> pyval list \<Rightarrow> exn + pyval" where
  "py_sum_from acc [] = Inr acc"
| "py_sum_from acc (v # vs) =
     (case py_add acc v of Inl e \<Rightarrow> Inl e | Inr acc' \<Rightarrow> py_sum_from acc' vs)"

definition py_sum :: "pyval list \<Rightarrow> exn + pyval" where
  "py_sum vs = py_sum_from (PInt 0) vs"

section \<open>Float arithmetic\<close>

text \<open>
  Python's \<open>float\<close> is the IEEE 754 double: 53 bits of mantissa, the smallest unit
  \<open>2^-1074\<close>, every operation rounded to the nearest double, ties to the even mantissa.
  The largest exponent is not modelled: the values here are readings of \<open>time.time()\<close>,
  seconds since 1970, and their differences.
\<close>

definition pow2 :: "int \<Rightarrow> rat" where
  "pow2 e = (if 0 \<le> e then 2 ^ nat e else 1 / 2 ^ nat (- e))"

text \<open>\<open>int.bit_length\<close>: the number of bits of a positive integer.\<close>

function bit_length :: "int \<Rightarrow> int" where
  "bit_length n = (if n \<le> 0 then 0 else 1 + bit_length (n div 2))"
  by pat_completeness auto
termination
  by (relation "measure nat") auto

declare bit_length.simps [simp del]

text \<open>The integer part of the binary logarithm of a positive rational.\<close>

definition floor_log2 :: "rat \<Rightarrow> int" where
  "floor_log2 a =
     (if 1 \<le> a then bit_length \<lfloor>a\<rfloor> - 1
      else - bit_length (\<lceil>1 / a\<rceil> - 1))"

definition round_half_even :: "rat \<Rightarrow> int" where
  "round_half_even x =
     (let f = \<lfloor>x\<rfloor>; d = x - of_int f
      in if d < 1 / 2 then f else if 1 / 2 < d then f + 1 else if even f then f else f + 1)"

text \<open>The double nearest to \<open>x\<close>: \<open>m * 2^e\<close> with \<open>m\<close> of at most 53 bits.\<close>

definition to_double :: "rat \<Rightarrow> pyfloat" where
  "to_double x =
     (if x = 0 then 0
      else let a = \<bar>x\<bar>;
               e = max (floor_log2 a - 52) (- 1074);
               m = round_half_even (a / pow2 e)
           in if x < 0 then - (of_int m * pow2 e) else of_int m * pow2 e)"

definition float_sub :: "pyfloat \<Rightarrow> pyfloat \<Rightarrow> pyfloat" where
  "float_sub a b = to_double (a - b)"

definition float_mul :: "pyfloat \<Rightarrow> pyfloat \<Rightarrow> pyfloat" where
  "float_mul a b = to_double (a * b)"

text \<open>
  \<open>round(x, ndigits)\<close> on a float: the value of \<open>x\<close> is rounded to \<open>ndigits\<close> decimal
  places, ties to even, and the result is the double nearest to that decimal number.
\<close>

definition py_round :: "pyfloat \<Rightarrow> nat \<Rightarrow> pyfloat" where
  "py_round x ndigits =
     to_double (of_int (round_half_even (x * 10 ^ ndigits)) / 10 ^ ndigits)"

section \<open>The client library and the configuration\<close>

text \<open>What \<open>client.get_collections()\<close> returns: a response with a list of descriptions.\<close>

record collection_description =
  name :: string
  vectors_count :: "int option attr"
  points_count :: "int option attr"

record collections_response =
  collections :: "collection_description list attr"

text \<open>
  What \<open>client.get_collection(name)\<close> returns. Reading \<open>config.params.vector\<close> goes
  through three attributes and may raise; \<open>config_params_vector\<close> is the outcome of that read.
\<close>

record vector_params =
  vp_size :: "int attr"
  vp_distance :: "string attr"

record collection_info =
  info_vectors_count :: "int option attr"
  info_points_count :: "int option attr"
  config_params_vector :: "(exn + vector_params) attr"
  info_status :: "string attr"

text \<open>A \<open>QdrantClient\<close> object, by identity.\<close>

type_synonym handle = nat

text \<open>
  The world outside the service, at the time of one operation: the outcome of each call
  into the client library (\<open>Inl\<close> the exception it raises), the members of the
  library's \<open>Distance\<close> enum by name, the text of the interpreter's
  \<open>AttributeError\<close> for a missing attribute, the configuration (connection string and
  application settings), and the two readings of \<open>time.time()\<close>, the wall clock, before
  and after the calls.
\<close>

record world =
  new_client :: "pyval \<Rightarrow> exn + handle"
  get_collections :: "handle \<Rightarrow> exn + collections_response"
  get_collection :: "handle \<Rightarrow> string \<Rightarrow> exn + collection_info"
  distance_enum :: "(string \<times> string) list"
  create_collection_call :: "handle \<Rightarrow> string \<Rightarrow> int \<Rightarrow> string \<Rightarrow> exn + unit"
  close_call :: "handle \<Rightarrow> exn + unit"
  no_attribute_text :: "string \<Rightarrow> string"
  get_connection_string :: string
  app_name :: string
  app_version :: string
  debug :: bool
  time_start :: pyfloat
  time_end :: pyfloat

section \<open>QdrantService\<close>

record service =
  client :: "handle option"
  connection_params :: pyval

text \<open>\<open>__init__\<close>: no client yet; the parameters come from the configuration.\<close>

definition init :: "pyval \<Rightarrow> service" where
  "init params = \<lparr>client = None, connection_params = params\<rparr>"

text \<open>
  \<open>get_client\<close>: creates the client when there is none; an exception of the constructor is
  logged and raised again, and the field stays \<open>None\<close>.
\<close>

definition get_client :: "world \<Rightarrow> service \<Rightarrow> (exn + handle) \<times> service" where
  "get_client w s =
     (case client s of
        None \<Rightarrow>
          (case new_client w (connection_params s) of
             Inl e \<Rightarrow> (Inl e, s)
           | Inr c \<Rightarrow> (Inr c, s\<lparr>client := Some c\<rparr>))
      | Some c \<Rightarrow> (Inr c, s))"

subsection \<open>check\_connection\<close>

definition describe :: "collection_description \<Rightarrow> dict" where
  "describe c =
     [(''name'', PStr (name c)),
      (''vectors_count'', count_val (getattr_default (vectors_count c) (Some 0))),
      (''points_count'', count_val (getattr_default (points_count c) (Some 0)))]"

text \<open>
  The \<open>try\<close> block: its value is the dictionary passed to \<open>result.update\<close>, which is
  built completely before \<open>update\<close> runs.
\<close>

definition check_connection_try :: "world \<Rightarrow> service \<Rightarrow> (exn + dict) \<times> service" where
  "check_connection_try w s =
     (case get_client w s of
        (Inl e, s') \<Rightarrow> (Inl e, s')
      | (Inr c, s') \<Rightarrow>
          (case get_collections w c of
             Inl e \<Rightarrow> (Inl e, s')
           | Inr server_info \<Rightarrow>
               (let response_time = float_mul (float_sub (time_end w) (time_start w)) 1000;
                    cols = (case collections server_info of
                              Absent \<Rightarrow> []
                            | Present cs \<Rightarrow> map describe cs)
                in case py_sum (map (\<lambda>col. dict_get_default col ''vectors_count'' (PInt 0)) cols) of
                     Inl e \<Rightarrow> (Inl e, s')
                   | Inr total_vectors \<Rightarrow>
                       (case py_sum (map (\<lambda>col. dict_get_default col ''points_count'' (PInt 0)) cols) of
                          Inl e \<Rightarrow> (Inl e, s')
                        | Inr total_points \<Rightarrow>
                            (Inr [(''status'', PStr ''connected''),
                                  (''server_info'',
                                     PDict [(''collections_count'', PInt (int (length cols))),
                                            (''total_vectors'', total_vectors),
                                            (''total_points'', total_points)]),
                                  (''collections'', PList (map PDict cols)),
                                  (''response_time_ms'', PFloat (py_round response_time 2))],
                             s')))))"

text \<open>The three \<open>except\<close> clauses, in the order of the source.\<close>

fun error_msg :: "exn \<Rightarrow> string" where
  "error_msg (UnexpectedResponse m) = ''Qdrant server error: '' @ m"
| "error_msg (ConnectionError m) = ''Connection failed: '' @ m"
| "error_msg e = ''Unexpected error: '' @ str e"

text \<open>
  The dictionary built before the \<open>try\<close>. \<open>QdrantConfig.get_connection_string()\<close> is
  the accessor of the configuration, taken as the string it returns.
\<close>

definition initial_result :: "world \<Rightarrow> dict" where
  "initial_result w =
     [(''status'', PStr ''disconnected''),
      (''connection_string'', PStr (get_connection_string w)),
      (''error'', PNone),
      (''server_info'', PNone),
      (''collections'', PList []),
      (''response_time_ms'', PNone)]"

definition check_connection :: "world \<Rightarrow> service \<Rightarrow> (exn + dict) \<times> service" where
  "check_connection w s =
     (let result = initial_result w
      in case check_connection_try w s of
           (Inr upd, s') \<Rightarrow> (Inr (dict_update result upd), s')
         | (Inl e, s') \<Rightarrow> (Inr (dict_setitem result ''error'' (PStr (error_msg e))), s'))"

subsection \<open>get\_collections\_info\<close>

text \<open>The \<open>config\<close> entry: \<open>None\<close> without a \<open>config\<close> attribute.\<close>

definition config_entry :: "collection_info \<Rightarrow> exn + pyval" where
  "config_entry ci =
     (case config_params_vector ci of
        Absent \<Rightarrow> Inr PNone
      | Present (Inl e) \<Rightarrow> Inl e
      | Present (Inr v) \<Rightarrow>
          Inr (PDict [(''vector_size'', (case vp_size v of Absent \<Rightarrow> PNone | Present n \<Rightarrow> PInt n)),
                      (''distance'', (case vp_distance v of Absent \<Rightarrow> PNone | Present d \<Rightarrow> PStr d))]))"

text \<open>The body of the \<open>for\<close> loop, an inner \<open>try\<close> with its \<open>except Exception\<close>.\<close>

definition detail_try :: "world \<Rightarrow> handle \<Rightarrow> collection_description \<Rightarrow> exn + dict" where
  "detail_try w c col =
     (case get_collection w c (name col) of
        Inl e \<Rightarrow> Inl e
      | Inr ci \<Rightarrow>
          (case config_entry ci of
             Inl e \<Rightarrow> Inl e
           | Inr cfg \<Rightarrow>
               Inr [(''name'', PStr (name col)),
                    (''vectors_count'', count_val (getattr_default (info_vectors_count ci) (Some 0))),
                    (''points_count'', count_val (getattr_default (info_points_count ci) (Some 0))),
                    (''config'', cfg),
                    (''status'', PStr (getattr_default (info_status ci) ''unknown''))]))"

definition detail_item :: "world \<Rightarrow> handle \<Rightarrow> collection_description \<Rightarrow> dict" where
  "detail_item w c col =
     (case detail_try w c col of
        Inr info \<Rightarrow> info
      | Inl e \<Rightarrow> [(''name'', PStr (name col)), (''error'', PStr (str e))])"

text \<open>The loop: each item is appended to \<open>collections_info\<close>.\<close>

primrec collect :: "world \<Rightarrow> handle \<Rightarrow> collection_description list \<Rightarrow> dict list \<Rightarrow> dict list" where
  "collect w c [] collections_info = collections_info"
| "collect w c (col # cols) collections_info =
     collect w c cols (collections_info @ [detail_item w c col])"

text \<open>
  The outer \<open>except Exception\<close> logs and raises the same exception again, so an
  exception of the outer block is the result. \<open>collections_response.collections\<close> is read
  without \<open>hasattr\<close>.
\<close>

definition get_collections_info :: "world \<Rightarrow> service \<Rightarrow> (exn + dict list) \<times> service" where
  "get_collections_info w s =
     (case get_client w s of
        (Inl e, s') \<Rightarrow> (Inl e, s')
      | (Inr c, s') \<Rightarrow>
          (case get_collections w c of
             Inl e \<Rightarrow> (Inl e, s')
           | Inr collections_response \<Rightarrow>
               (case collections collections_response of
                  Absent \<Rightarrow> (Inl (AttributeError (no_attribute_text w ''collections'')), s')
                | Present cols \<Rightarrow> (Inr (collect w c cols []), s'))))"

subsection \<open>create\_collection\<close>

text \<open>\<open>str.upper\<close> on ASCII text.\<close>

definition char_upper :: "char \<Rightarrow> char" where
  "char_upper ch =
     (case map_of (zip ''abcdefghijklmnopqrstuvwxyz'' ''ABCDEFGHIJKLMNOPQRSTUVWXYZ'') ch of
        None \<Rightarrow> ch
      | Some u \<Rightarrow> u)"

definition upper :: "string \<Rightarrow> string" where
  "upper t = map char_upper t"

text \<open>\<open>getattr(models.Distance, n)\<close>: the member of that name, or \<open>AttributeError\<close>.\<close>

definition getattr_Distance :: "world \<Rightarrow> string \<Rightarrow> exn + string" where
  "getattr_Distance w n =
     (case map_of (distance_enum w) n of
        None \<Rightarrow> Inl (AttributeError (no_attribute_text w n))
      | Some d \<Rightarrow> Inr d)"

text \<open>
  The \<open>try\<close> block. \<open>create_collection_call\<close> is the construction of
  \<open>models.VectorParams\<close> followed by \<open>client.create_collection\<close>.
\<close>

definition create_collection_try ::
  "world \<Rightarrow> service \<Rightarrow> string \<Rightarrow> int \<Rightarrow> string \<Rightarrow> (exn + dict) \<times> service" where
  "create_collection_try w s collection_name vector_size distance =
     (case get_client w s of
        (Inl e, s') \<Rightarrow> (Inl e, s')
      | (Inr c, s') \<Rightarrow>
          (case getattr_Distance w (upper distance) of
             Inl e \<Rightarrow> (Inl e, s')
           | Inr d \<Rightarrow>
               (case create_collection_call w c collection_name vector_size d of
                  Inl e \<Rightarrow> (Inl e, s')
                | Inr u \<Rightarrow>
                    (Inr [(''success'', PBool True),
                          (''collection_name'', PStr collection_name),
                          (''vector_size'', PInt vector_size),
                          (''distance'', PStr distance),
                          (''message'', PStr (''Collection '' @ quoted collection_name
                                               @ '' created successfully''))],
                     s'))))"

definition create_collection ::
  "world \<Rightarrow> service \<Rightarrow> string \<Rightarrow> int \<Rightarrow> string \<Rightarrow> (exn + dict) \<times> service" where
  "create_collection w s collection_name vector_size distance =
     (case create_collection_try w s collection_name vector_size distance of
        (Inr result, s') \<Rightarrow> (Inr result, s')
      | (Inl e, s') \<Rightarrow>
          (Inr [(''success'', PBool False),
                (''error'', PStr (''Failed to create collection '' @ quoted collection_name
                                   @ '': '' @ str e))],
           s'))"

subsection \<open>close\<close>

text \<open>The client is dropped only when its \<open>close()\<close> returns.\<close>

definition close :: "world \<Rightarrow> service \<Rightarrow> service" where
  "close w s =
     (case client s of
        None \<Rightarrow> s
      | Some c \<Rightarrow> (case close_call w c of Inl e \<Rightarrow> s | Inr u \<Rightarrow> s\<lparr>client := None\<rparr>))"

section \<open>The HTTP endpoints\<close>

text \<open>
  What leaves a route handler is a body, or an exception: the \<open>HTTPException\<close> raised
  by the handler with its status code and detail, or any other exception.
\<close>

datatype raised = HTTPException nat pyval | Unhandled exn

text \<open>
  The web framework's answer: status 200 for a returned body, the status code of an
  \<open>HTTPException\<close>, status 500 for any other exception.
\<close>

fun http_status :: "raised + dict \<Rightarrow> nat" where
  "http_status (Inr body) = 200"
| "http_status (Inl (HTTPException code detail)) = code"
| "http_status (Inl (Unhandled e)) = 500"

record collection_create =
  cc_name :: string
  cc_vector_size :: int
  cc_distance :: string

text \<open>Truth value of a Python value, as \<open>if\<close> tests it.\<close>

fun truthy :: "pyval \<Rightarrow> bool" where
  "truthy PNone = False"
| "truthy (PBool b) = b"
| "truthy (PInt n) = (n \<noteq> 0)"
| "truthy (PFloat x) = (x \<noteq> 0)"
| "truthy (PStr t) = (t \<noteq> [])"
| "truthy (PList vs) = (vs \<noteq> [])"
| "truthy (PDict d) = (d \<noteq> [])"

text \<open>\<open>d[k]\<close>.\<close>

definition dict_getitem :: "dict \<Rightarrow> string \<Rightarrow> exn + pyval" where
  "dict_getitem d k = (case dict_get d k of None \<Rightarrow> Inl (KeyError (quoted k)) | Some v \<Rightarrow> Inr v)"

definition root :: dict where
  "root = [(''message'', PStr ''Welcome to RAG FastAPI Project'')]"

definition health_check :: dict where
  "health_check = [(''status'', PStr ''healthy'')]"

definition api_info :: "world \<Rightarrow> dict" where
  "api_info w =
     [(''name'', PStr (app_name w)),
      (''version'', PStr (app_version w)),
      (''description'',
         PStr ''A FastAPI application for RAG (Retrieval Augmented Generation) operations''),
      (''debug'', PBool (debug w))]"

definition check_qdrant_connection :: "world \<Rightarrow> service \<Rightarrow> (raised + dict) \<times> service" where
  "check_qdrant_connection w s =
     (case check_connection w s of
        (Inr result, s') \<Rightarrow> (Inr result, s')
      | (Inl e, s') \<Rightarrow>
          (Inl (HTTPException 500 (PStr (''Failed to check Qdrant connection: '' @ str e))), s'))"

definition get_qdrant_collections :: "world \<Rightarrow> service \<Rightarrow> (raised + dict) \<times> service" where
  "get_qdrant_collections w s =
     (case get_collections_info w s of
        (Inr cols, s') \<Rightarrow>
          (Inr [(''collections'', PList (map PDict cols)),
                (''total_collections'', PInt (int (length cols))),
                (''connection_string'', connection_params s')],
           s')
      | (Inl e, s') \<Rightarrow>
          (Inl (HTTPException 500 (PStr (''Failed to get collections: '' @ str e))), s'))"

text \<open>
  The \<open>try\<close> block of the POST handler: it returns the result, raises
  \<open>HTTPException(400)\<close> itself, or lets an exception of the service or of a dictionary
  read through.
\<close>

definition create_qdrant_collection_try ::
  "world \<Rightarrow> service \<Rightarrow> collection_create \<Rightarrow> (raised + dict) \<times> service" where
  "create_qdrant_collection_try w s collection_data =
     (case create_collection w s (cc_name collection_data) (cc_vector_size collection_data)
             (cc_distance collection_data) of
        (Inl e, s') \<Rightarrow> (Inl (Unhandled e), s')
      | (Inr result, s') \<Rightarrow>
          (case dict_getitem result ''success'' of
             Inl e \<Rightarrow> (Inl (Unhandled e), s')
           | Inr ok \<Rightarrow>
               if truthy ok then (Inr result, s')
               else (case dict_getitem result ''error'' of
                       Inl e \<Rightarrow> (Inl (Unhandled e), s')
                     | Inr detail \<Rightarrow> (Inl (HTTPException 400 detail), s'))))"

text \<open>\<open>except HTTPException: raise\<close>, then \<open>except Exception\<close>.\<close>

definition create_qdrant_collection ::
  "world \<Rightarrow> service \<Rightarrow> collection_create \<Rightarrow> (raised + dict) \<times> service" where
  "create_qdrant_collection w s collection_data =
     (case create_qdrant_collection_try w s collection_data of
        (Inr result, s') \<Rightarrow> (Inr result, s')
      | (Inl (HTTPException code detail), s') \<Rightarrow> (Inl (HTTPException code detail), s')
      | (Inl (Unhandled e), s') \<Rightarrow>
          (Inl (HTTPException 500 (PStr (''Failed to create collection: '' @ str e))), s'))"

definition get_qdrant_status_try :: "world \<Rightarrow> service \<Rightarrow> (exn + dict) \<times> service" where
  "get_qdrant_status_try w s =
     (case get_client w s of
        (Inl e, s') \<Rightarrow> (Inl e, s')
      | (Inr c, s') \<Rightarrow>
          (case get_collections w c of
             Inl e \<Rightarrow> (Inl e, s')
           | Inr collections_response \<Rightarrow>
               (case collections collections_response of
                  Absent \<Rightarrow> (Inl (AttributeError (no_attribute_text w ''collections'')), s')
                | Present cols \<Rightarrow>
                    (Inr [(''status'', PStr ''connected''),
                          (''collections_count'', PInt (int (length cols))),
                          (''connection_string'', connection_params s'),
                          (''message'', PStr ''Qdrant is running and accessible'')],
                     s'))))"

definition get_qdrant_status :: "world \<Rightarrow> service \<Rightarrow> (raised + dict) \<times> service" where
  "get_qdrant_status w s =
     (case get_qdrant_status_try w s of
        (Inr body, s') \<Rightarrow> (Inr body, s')
      | (Inl e, s') \<Rightarrow>
          (Inr [(''status'', PStr ''disconnected''),
                (''error'', PStr (str e)),
                (''connection_string'', connection_params s'),
                (''message'', PStr ''Qdrant is not accessible'')],
           s'))"

subsection \<open>The running application\<close>

text \<open>
  The one \<open>QdrantService\<close> of the process is reached through the routes only. A run is
  a sequence of requests, each served in the world of its moment.
\<close>

datatype request =
    GetRoot
  | GetHealth
  | GetInfo
  | GetQdrantConnection
  | GetQdrantCollections
  | PostQdrantCollections collection_create
  | GetQdrantStatus

fun dispatch :: "world \<Rightarrow> service \<Rightarrow> request \<Rightarrow> (raised + dict) \<times> service" where
  "dispatch w s GetRoot = (Inr root, s)"
| "dispatch w s GetHealth = (Inr health_check, s)"
| "dispatch w s GetInfo = (Inr (api_info w), s)"
| "dispatch w s GetQdrantConnection = check_qdrant_connection w s"
| "dispatch w s GetQdrantCollections = get_qdrant_collections w s"
| "dispatch w s (PostQdrantCollections collection_data) = create_qdrant_collection w s collection_data"
| "dispatch w s GetQdrantStatus = get_qdrant_status w s"

fun uses_service :: "request \<Rightarrow> bool" where
  "uses_service GetRoot = False"
| "uses_service GetHealth = False"
| "uses_service GetInfo = False"
| "uses_service r = True"

primrec run :: "(world \<times> request) list \<Rightarrow> service \<Rightarrow> service" where
  "run [] s = s"
| "run (x # xs) s = run xs (snd (dispatch (fst x) s (snd x)))"

section \<open>Example worlds\<close>

text \<open>
  A healthy server with three collections, one of which fails its detail call, and the
  same server unreachable. The enum members are those of the docstring of
  \<open>create_collection\<close> (Cosine, Euclid, Dot).
\<close>

definition green_info :: collection_info where
  "green_info =
     \<lparr>info_vectors_count = Present (Some 10), info_points_count = Present (Some 10),
      config_params_vector = Present (Inr \<lparr>vp_size = Present 384, vp_distance = Present ''Cosine''\<rparr>),
      info_status = Present ''green''\<rparr>"

definition example_world :: world where
  "example_world =
     \<lparr>new_client = (\<lambda>params. Inr 1),
      get_collections = (\<lambda>c. Inr \<lparr>collections = Present
         [\<lparr>name = ''docs'', vectors_count = Absent, points_count = Absent\<rparr>,
          \<lparr>name = ''broken'', vectors_count = Absent, points_count = Absent\<rparr>,
          \<lparr>name = ''notes'', vectors_count = Absent, points_count = Absent\<rparr>]\<rparr>),
      get_collection = (\<lambda>c n.
         if n = ''broken'' then Inl (UnexpectedResponse ''500 (Internal Server Error)'')
         else Inr green_info),
      distance_enum = [(''COSINE'', ''Cosine''), (''EUCLID'', ''Euclid''), (''DOT'', ''Dot'')],
      create_collection_call = (\<lambda>c n v d. Inr ()),
      close_call = (\<lambda>c. Inr ()),
      no_attribute_text = (\<lambda>n. n),
      get_connection_string = ''http://localhost:6333'',
      app_name = ''RAG FastAPI Project'',
      app_version = ''1.0.0'',
      debug = False,
      time_start = 1700000000,
      time_end = 1700000000 + 1 / 8\<rparr>"

definition unreachable_world :: world where
  "unreachable_world =
     example_world\<lparr>get_collections := (\<lambda>c. Inl (ConnectionError ''[Errno 111] Connection refused''))\<rparr>"


text \<open>The list call fails with an exception whose text is empty.\<close>

definition silent_world :: world where
  "silent_world = example_world\<lparr>get_collections := (\<lambda>c. Inl (OtherException ''''))\<rparr>"

section \<open>Properties of check\_connection\<close>

lemma example_client: "fst (get_client example_world (init PNone)) = Inr 1"
  by (simp add: get_client_def init_def example_world_def)

lemma unreachable_client: "fst (get_client unreachable_world (init PNone)) = Inr 1"
  by (simp add: get_client_def init_def example_world_def unreachable_world_def)

lemma unreachable_listing:
  "get_collections unreachable_world 1 = Inl (ConnectionError ''[Errno 111] Connection refused'')"
  by (simp add: example_world_def unreachable_world_def)

lemma unreachable_report:
  "fst (check_connection unreachable_world (init PNone)) =
     Inr [(''status'', PStr ''disconnected''),
          (''connection_string'', PStr ''http://localhost:6333''),
          (''error'', PStr ''Connection failed: [Errno 111] Connection refused''),
          (''server_info'', PNone),
          (''collections'', PList []),
          (''response_time_ms'', PNone)]"
  by (simp add: check_connection_def check_connection_try_def initial_result_def get_client_def
                init_def unreachable_world_def example_world_def)

lemma error_msg_nonempty: "error_msg e \<noteq> []"
  by (cases e) simp_all

lemma check_connection_try_shape:
  "(\<exists>e. fst (check_connection_try w s) = Inl e) \<or>
   (\<exists>si cl. fst (check_connection_try w s) =
        Inr [(''status'', PStr ''connected''), (''server_info'', PDict si),
             (''collections'', PList cl),
             (''response_time_ms'',
                PFloat (py_round (float_mul (float_sub (time_end w) (time_start w)) 1000) 2))])"
  unfolding check_connection_try_def Let_def
  by (simp split: prod.splits sum.splits)

lemma check_connection_on_failure:
  assumes "check_connection_try w s = (Inl e, s')"
  shows "check_connection w s =
           (Inr [(''status'', PStr ''disconnected''),
                 (''connection_string'', PStr (get_connection_string w)),
                 (''error'', PStr (error_msg e)),
                 (''server_info'', PNone),
                 (''collections'', PList []),
                 (''response_time_ms'', PNone)], s')"
  using assms by (simp add: check_connection_def initial_result_def)

lemma check_connection_on_success:
  assumes "check_connection_try w s =
             (Inr [(''status'', PStr ''connected''), (''server_info'', si),
                   (''collections'', cl), (''response_time_ms'', rt)], s')"
  shows "check_connection w s =
           (Inr [(''status'', PStr ''connected''),
                 (''connection_string'', PStr (get_connection_string w)),
                 (''error'', PNone),
                 (''server_info'', si),
                 (''collections'', cl),
                 (''response_time_ms'', rt)], s')"
  using assms by (simp add: check_connection_def initial_result_def)

lemma check_connection_result:
  "(\<exists>e s'. check_connection_try w s = (Inl e, s') \<and>
       check_connection w s =
           (Inr [(''status'', PStr ''disconnected''),
                 (''connection_string'', PStr (get_connection_string w)),
                 (''error'', PStr (error_msg e)),
                 (''server_info'', PNone),
                 (''collections'', PList []),
                 (''response_time_ms'', PNone)], s'))
   \<or> (\<exists>si cl s'. check_connection w s =
           (Inr [(''status'', PStr ''connected''),
                 (''connection_string'', PStr (get_connection_string w)),
                 (''error'', PNone),
                 (''server_info'', PDict si),
                 (''collections'', PList cl),
                 (''response_time_ms'',
                    PFloat (py_round (float_mul (float_sub (time_end w) (time_start w)) 1000) 2))],
            s'))"
proof (cases "check_connection_try w s")
  case (Pair r s')
  show ?thesis
  proof (cases r)
    case (Inl e)
    with Pair check_connection_on_failure show ?thesis by blast
  next
    case (Inr upd)
    with Pair check_connection_try_shape [of w s]
    obtain si cl where
      "check_connection_try w s = (Inr [(''status'', PStr ''connected''), (''server_info'', PDict si),
             (''collections'', PList cl),
             (''response_time_ms'',
                PFloat (py_round (float_mul (float_sub (time_end w) (time_start w)) 1000) 2))], s')"
      by auto
    from check_connection_on_success [OF this] show ?thesis by blast
  qed
qed

text \<open>
  Claim C1. \<open>check_connection\<close> always returns a dictionary and never raises. When
  acquiring the client or the list call raises \<open>e\<close>, and more generally whenever the
  \<open>try\<close> block raises \<open>e\<close>, the dictionary has status \<open>disconnected\<close> and an error
  string that is not empty: one of the three prefixes followed by \<open>str(e)\<close>.
\<close>

theorem check_connection_never_raises:
  "(\<exists>d. fst (check_connection w s) = Inr d) \<and>
   (fst (get_client w s) = Inl e \<or>
    (\<exists>c. fst (get_client w s) = Inr c \<and> get_collections w c = Inl e)
      \<longrightarrow> fst (check_connection_try w s) = Inl e) \<and>
   (fst (check_connection_try w s) = Inl e \<longrightarrow>
      (\<exists>d. fst (check_connection w s) = Inr d \<and>
           dict_get d ''status'' = Some (PStr ''disconnected'') \<and>
           dict_get d ''error'' = Some (PStr (error_msg e)) \<and>
           error_msg e \<noteq> [] \<and>
           error_msg e \<in> {''Qdrant server error: '' @ str e, ''Connection failed: '' @ str e,
                            ''Unexpected error: '' @ str e}))"
proof (intro conjI impI)
  show "\<exists>d. fst (check_connection w s) = Inr d"
    using check_connection_result [of w s] by auto
next
  assume "fst (get_client w s) = Inl e \<or>
    (\<exists>c. fst (get_client w s) = Inr c \<and> get_collections w c = Inl e)"
  then show "fst (check_connection_try w s) = Inl e"
    by (auto simp: check_connection_try_def split: prod.splits sum.splits)
next
  assume a: "fst (check_connection_try w s) = Inl e"
  then obtain s' where "check_connection_try w s = (Inl e, s')"
    by (cases "check_connection_try w s") simp
  from check_connection_on_failure [OF this]
  have "fst (check_connection w s) = Inr [(''status'', PStr ''disconnected''),
                 (''connection_string'', PStr (get_connection_string w)),
                 (''error'', PStr (error_msg e)),
                 (''server_info'', PNone),
                 (''collections'', PList []),
                 (''response_time_ms'', PNone)]" by simp
  moreover have "error_msg e \<in> {''Qdrant server error: '' @ str e, ''Connection failed: '' @ str e,
                            ''Unexpected error: '' @ str e}"
    by (cases e) simp_all
  ultimately show "\<exists>d. fst (check_connection w s) = Inr d \<and>
           dict_get d ''status'' = Some (PStr ''disconnected'') \<and>
           dict_get d ''error'' = Some (PStr (error_msg e)) \<and>
           error_msg e \<noteq> [] \<and>
           error_msg e \<in> {''Qdrant server error: '' @ str e, ''Connection failed: '' @ str e,
                            ''Unexpected error: '' @ str e}"
    using error_msg_nonempty [of e] by (simp add: dict_get_def)
qed


theorem check_connection_never_raises_witness:
  "fst (get_client unreachable_world (init PNone)) = Inr 1 \<and>
   get_collections unreachable_world 1 = Inl (ConnectionError ''[Errno 111] Connection refused'') \<and>
   (\<exists>d. fst (check_connection unreachable_world (init PNone)) = Inr d \<and>
        dict_get d ''status'' = Some (PStr ''disconnected'') \<and>
        dict_get d ''error'' = Some (PStr ''Connection failed: [Errno 111] Connection refused''))"
  using check_connection_never_raises
          [of unreachable_world "init PNone" "ConnectionError ''[Errno 111] Connection refused''"]
        unreachable_client unreachable_listing
  by simp

lemma collect_append: "collect w c cols acc = acc @ map (detail_item w c) cols"
  by (induction cols arbitrary: acc) simp_all

lemma detail_item_failed:
  "get_collection w c (name col) = Inl e \<Longrightarrow>
   detail_item w c col = [(''name'', PStr (name col)), (''error'', PStr (str e))]"
  by (simp add: detail_item_def detail_try_def)

lemma get_collections_info_listed:
  assumes "fst (get_client w s) = Inr c" and "get_collections w c = Inr resp"
    and "collections resp = Present cols"
  shows "fst (get_collections_info w s) = Inr (map (detail_item w c) cols)"
  using assms
  by (cases "get_client w s") (simp add: get_collections_info_def collect_append)

lemma detail_item_config_failed:
  "get_collection w c (name col) = Inr ci \<Longrightarrow> config_entry ci = Inl e \<Longrightarrow>
   detail_item w c col = [(''name'', PStr (name col)), (''error'', PStr (str e))]"
  by (simp add: detail_item_def detail_try_def)

lemma detail_item_succeeded:
  "get_collection w c (name col) = Inr ci \<Longrightarrow> config_entry ci = Inr cfg \<Longrightarrow>
   detail_item w c col =
     [(''name'', PStr (name col)),
      (''vectors_count'', count_val (getattr_default (info_vectors_count ci) (Some 0))),
      (''points_count'', count_val (getattr_default (info_points_count ci) (Some 0))),
      (''config'', cfg),
      (''status'', PStr (getattr_default (info_status ci) ''unknown''))]"
  by (simp add: detail_item_def detail_try_def)

text \<open>
  Claim C2. When the listing succeeds, \<open>get_collections_info\<close> returns one item per
  listed collection, in the order of the listing. The item of a collection whose detail
  call raised \<open>e\<close> (or whose configuration could not be read) is exactly
  \<open>{name, error: str(e)}\<close>, and the item of every other collection is its complete
  description, whatever happened to the collections before and after it.
\<close>

theorem per_collection_failure_isolated:
  assumes "fst (get_client w s) = Inr c" and "get_collections w c = Inr resp"
    and "collections resp = Present cols"
  shows "\<exists>items. fst (get_collections_info w s) = Inr items \<and> length items = length cols \<and>
           (\<forall>i<length cols.
              (\<forall>e. get_collection w c (name (cols ! i)) = Inl e \<longrightarrow>
                   items ! i = [(''name'', PStr (name (cols ! i))), (''error'', PStr (str e))]) \<and>
              (\<forall>ci e. get_collection w c (name (cols ! i)) = Inr ci \<and> config_entry ci = Inl e \<longrightarrow>
                   items ! i = [(''name'', PStr (name (cols ! i))), (''error'', PStr (str e))]) \<and>
              (\<forall>ci cfg. get_collection w c (name (cols ! i)) = Inr ci \<and> config_entry ci = Inr cfg \<longrightarrow>
                   items ! i =
                     [(''name'', PStr (name (cols ! i))),
                      (''vectors_count'', count_val (getattr_default (info_vectors_count ci) (Some 0))),
                      (''points_count'', count_val (getattr_default (info_points_count ci) (Some 0))),
                      (''config'', cfg),
                      (''status'', PStr (getattr_default (info_status ci) ''unknown''))]))"
proof -
  let ?items = "map (detail_item w c) cols"
  have "fst (get_collections_info w s) = Inr ?items"
    by (rule get_collections_info_listed [OF assms])
  moreover have "length ?items = length cols" by simp
  moreover have "\<forall>i<length cols.
              (\<forall>e. get_collection w c (name (cols ! i)) = Inl e \<longrightarrow>
                   ?items ! i = [(''name'', PStr (name (cols ! i))), (''error'', PStr (str e))]) \<and>
              (\<forall>ci e. get_collection w c (name (cols ! i)) = Inr ci \<and> config_entry ci = Inl e \<longrightarrow>
                   ?items ! i = [(''name'', PStr (name (cols ! i))), (''error'', PStr (str e))]) \<and>
              (\<forall>ci cfg. get_collection w c (name (cols ! i)) = Inr ci \<and> config_entry ci = Inr cfg \<longrightarrow>
                   ?items ! i =
                     [(''name'', PStr (name (cols ! i))),
                      (''vectors_count'', count_val (getattr_default (info_vectors_count ci) (Some 0))),
                      (''points_count'', count_val (getattr_default (info_points_count ci) (Some 0))),
                      (''config'', cfg),
                      (''status'', PStr (getattr_default (info_status ci) ''unknown''))])"
    by (simp add: detail_item_failed detail_item_config_failed detail_item_succeeded)
  ultimately show ?thesis by blast
qed

theorem per_collection_failure_isolated_witness:
  "fst (get_collections_info example_world (init PNone)) =
     Inr [[(''name'', PStr ''docs''), (''vectors_count'', PInt 10), (''points_count'', PInt 10),
           (''config'', PDict [(''vector_size'', PInt 384), (''distance'', PStr ''Cosine'')]),
           (''status'', PStr ''green'')],
          [(''name'', PStr ''broken''), (''error'', PStr ''500 (Internal Server Error)'')],
          [(''name'', PStr ''notes''), (''vectors_count'', PInt 10), (''points_count'', PInt 10),
           (''config'', PDict [(''vector_size'', PInt 384), (''distance'', PStr ''Cosine'')]),
           (''status'', PStr ''green'')]]"
proof -
  let ?cols = "[\<lparr>name = ''docs'', vectors_count = Absent, points_count = Absent\<rparr>,
          \<lparr>name = ''broken'', vectors_count = Absent, points_count = Absent\<rparr>,
          \<lparr>name = ''notes'', vectors_count = Absent, points_count = Absent\<rparr>]"
  let ?cfg = "PDict [(''vector_size'', PInt 384), (''distance'', PStr ''Cosine'')]"
  have h2: "get_collections example_world 1 = Inr \<lparr>collections = Present ?cols\<rparr>"
    by (simp add: example_world_def)
  have h3: "collections \<lparr>collections = Present ?cols\<rparr> = Present ?cols" by simp
  have broken: "get_collection example_world 1 ''broken'' =
      Inl (UnexpectedResponse ''500 (Internal Server Error)'')"
    by (simp add: example_world_def)
  have d1: "get_collection example_world 1 ''docs'' = Inr green_info"
    and d3: "get_collection example_world 1 ''notes'' = Inr green_info"
    by (simp_all add: example_world_def green_info_def)
  have cfg: "config_entry green_info = Inr ?cfg"
    by (simp add: config_entry_def green_info_def)
  from per_collection_failure_isolated [OF example_client h2 h3]
  obtain items where it: "fst (get_collections_info example_world (init PNone)) = Inr items"
    "length items = length ?cols"
    "\<forall>i<length ?cols.
       (\<forall>e. get_collection example_world 1 (name (?cols ! i)) = Inl e \<longrightarrow>
            items ! i = [(''name'', PStr (name (?cols ! i))), (''error'', PStr (str e))]) \<and>
       (\<forall>ci e. get_collection example_world 1 (name (?cols ! i)) = Inr ci \<and> config_entry ci = Inl e \<longrightarrow>
            items ! i = [(''name'', PStr (name (?cols ! i))), (''error'', PStr (str e))]) \<and>
       (\<forall>ci cfg. get_collection example_world 1 (name (?cols ! i)) = Inr ci \<and> config_entry ci = Inr cfg \<longrightarrow>
            items ! i =
              [(''name'', PStr (name (?cols ! i))),
               (''vectors_count'', count_val (getattr_default (info_vectors_count ci) (Some 0))),
               (''points_count'', count_val (getattr_default (info_points_count ci) (Some 0))),
               (''config'', cfg),
               (''status'', PStr (getattr_default (info_status ci) ''unknown''))])"
    by blast
  from it(3) d1 cfg have i0: "items ! 0 =
      [(''name'', PStr ''docs''), (''vectors_count'', PInt 10), (''points_count'', PInt 10),
       (''config'', ?cfg), (''status'', PStr ''green'')]"
    by (simp add: green_info_def count_val_def getattr_default_def)
  from it(3) broken have i1: "items ! 1 =
      [(''name'', PStr ''broken''), (''error'', PStr ''500 (Internal Server Error)'')]"
    by simp
  from it(3) d3 cfg have i2: "items ! 2 =
      [(''name'', PStr ''notes''), (''vectors_count'', PInt 10), (''points_count'', PInt 10),
       (''config'', ?cfg), (''status'', PStr ''green'')]"
    by (simp add: green_info_def count_val_def getattr_default_def)
  from it(2) obtain a b c where "items = [a, b, c]"
    by (auto simp: length_Suc_conv)
  with i0 i1 i2 it(1) show ?thesis by simp
qed

text \<open>
  Claim C3. When the list call raises \<open>e\<close>, \<open>get_collections_info\<close> raises \<open>e\<close>
  to its caller, and the GET handler of \<open>/qdrant/collections\<close> answers with status 500.
\<close>

theorem listing_failure_propagates:
  assumes "fst (get_client w s) = Inr c" and "get_collections w c = Inl e"
  shows "fst (get_collections_info w s) = Inl e \<and>
         fst (get_qdrant_collections w s) =
           Inl (HTTPException 500 (PStr (''Failed to get collections: '' @ str e))) \<and>
         http_status (fst (get_qdrant_collections w s)) = 500"
proof -
  from assms have "fst (get_collections_info w s) = Inl e"
    by (cases "get_client w s") (simp add: get_collections_info_def)
  then show ?thesis
    by (cases "get_collections_info w s") (simp add: get_qdrant_collections_def)
qed

theorem listing_failure_propagates_witness:
  "fst (get_collections_info unreachable_world (init PNone)) =
     Inl (ConnectionError ''[Errno 111] Connection refused'') \<and>
   fst (get_qdrant_collections unreachable_world (init PNone)) =
     Inl (HTTPException 500 (PStr ''Failed to get collections: [Errno 111] Connection refused'')) \<and>
   http_status (fst (get_qdrant_collections unreachable_world (init PNone))) = 500"
  using listing_failure_propagates [OF unreachable_client unreachable_listing]
  by simp

lemma create_collection_on_failure:
  "fst (create_collection_try w s n v d0) = Inl e \<Longrightarrow>
   fst (create_collection w s n v d0) =
     Inr [(''success'', PBool False),
          (''error'', PStr (''Failed to create collection '' @ quoted n @ '': '' @ str e))]"
  by (cases "create_collection_try w s n v d0") (simp add: create_collection_def)

lemma create_collection_returns: "\<exists>d. fst (create_collection w s n v d0) = Inr d"
  by (cases "create_collection_try w s n v d0") (auto simp: create_collection_def split: sum.splits)

text \<open>
  Claim C4. \<open>create_collection\<close> always returns a dictionary. A failure of acquiring the
  client, of the lookup of the distance member or of the remote call makes the \<open>try\<close>
  block raise, and every exception \<open>e\<close> of the \<open>try\<close> block is returned as
  \<open>{success: False, error: message}\<close>.
\<close>

theorem create_collection_never_raises:
  "(\<exists>d. fst (create_collection w s n v d0) = Inr d) \<and>
   (fst (get_client w s) = Inl e \<or>
    (\<exists>c. fst (get_client w s) = Inr c \<and>
         (getattr_Distance w (upper d0) = Inl e \<or>
          (\<exists>d. getattr_Distance w (upper d0) = Inr d \<and>
               create_collection_call w c n v d = Inl e)))
      \<longrightarrow> fst (create_collection_try w s n v d0) = Inl e) \<and>
   (fst (create_collection_try w s n v d0) = Inl e \<longrightarrow>
      fst (create_collection w s n v d0) =
        Inr [(''success'', PBool False),
             (''error'', PStr (''Failed to create collection '' @ quoted n @ '': '' @ str e))])"
proof (intro conjI impI)
  show "\<exists>d. fst (create_collection w s n v d0) = Inr d" by (rule create_collection_returns)
next
  assume "fst (get_client w s) = Inl e \<or>
    (\<exists>c. fst (get_client w s) = Inr c \<and>
         (getattr_Distance w (upper d0) = Inl e \<or>
          (\<exists>d. getattr_Distance w (upper d0) = Inr d \<and>
               create_collection_call w c n v d = Inl e)))"
  then show "fst (create_collection_try w s n v d0) = Inl e"
    by (cases "get_client w s") (auto simp: create_collection_try_def)
next
  assume "fst (create_collection_try w s n v d0) = Inl e"
  then show "fst (create_collection w s n v d0) =
        Inr [(''success'', PBool False),
             (''error'', PStr (''Failed to create collection '' @ quoted n @ '': '' @ str e))]"
    by (rule create_collection_on_failure)
qed

theorem create_collection_never_raises_witness:
  "create_collection_call (example_world\<lparr>create_collection_call :=
       (\<lambda>c n v d. Inl (UnexpectedResponse ''409 (Conflict)''))\<rparr>) 1 ''docs'' 384 ''Cosine'' =
     Inl (UnexpectedResponse ''409 (Conflict)'') \<and>
   fst (create_collection (example_world\<lparr>create_collection_call :=
       (\<lambda>c n v d. Inl (UnexpectedResponse ''409 (Conflict)''))\<rparr>) (init PNone) ''docs'' 384 ''Cosine'') =
     Inr [(''success'', PBool False),
          (''error'', PStr ''Failed to create collection 'docs': 409 (Conflict)'')]"
proof -
  let ?w = "example_world\<lparr>create_collection_call :=
       (\<lambda>c n v d. Inl (UnexpectedResponse ''409 (Conflict)''))\<rparr>"
  have h1: "fst (get_client ?w (init PNone)) = Inr 1"
    by (simp add: get_client_def init_def example_world_def)
  have h2: "getattr_Distance ?w (upper ''Cosine'') = Inr ''Cosine''"
    by (simp add: getattr_Distance_def upper_def char_upper_def example_world_def)
  have h3: "create_collection_call ?w 1 ''docs'' 384 ''Cosine'' = Inl (UnexpectedResponse ''409 (Conflict)'')"
    by simp
  from create_collection_never_raises
         [of ?w "init PNone" "''docs''" 384 "''Cosine''" "UnexpectedResponse ''409 (Conflict)''"]
       h1 h2 h3
  show ?thesis by (simp add: quoted_def)
qed

lemma post_reported_failure:
  assumes "fst (create_collection w s n v d0) = Inr [(''success'', PBool False), (''error'', detail)]"
  shows "fst (create_qdrant_collection w s \<lparr>cc_name = n, cc_vector_size = v, cc_distance = d0\<rparr>) =
           Inl (HTTPException 400 detail)"
  using assms
  by (cases "create_collection w s n v d0")
     (simp add: create_qdrant_collection_def create_qdrant_collection_try_def
                dict_getitem_def dict_get_def)

text \<open>
  Claim C5. When the upper-cased distance is not the name of a member of the enum,
  \<open>create_collection\<close> returns \<open>{success: False, error: msg}\<close> and the POST handler of
  \<open>/qdrant/collections\<close> answers with status 400 and that message as detail.
\<close>

theorem unrecognized_distance_is_400:
  assumes "map_of (distance_enum w) (upper d0) = None"
  shows "\<exists>msg. fst (create_collection w s n v d0) =
                  Inr [(''success'', PBool False), (''error'', PStr msg)] \<and>
               fst (create_qdrant_collection w s \<lparr>cc_name = n, cc_vector_size = v, cc_distance = d0\<rparr>) =
                  Inl (HTTPException 400 (PStr msg)) \<and>
               http_status (fst (create_qdrant_collection w s
                  \<lparr>cc_name = n, cc_vector_size = v, cc_distance = d0\<rparr>)) = 400 \<and>
               (\<forall>c. fst (get_client w s) = Inr c \<longrightarrow>
                    msg = ''Failed to create collection '' @ quoted n @ '': ''
                            @ no_attribute_text w (upper d0))"
proof -
  from assms have g: "getattr_Distance w (upper d0) = Inl (AttributeError (no_attribute_text w (upper d0)))"
    by (simp add: getattr_Distance_def)
  obtain r s' where gc: "get_client w s = (r, s')" by (cases "get_client w s")
  show ?thesis
  proof (cases r)
    case (Inl e)
    with gc have "fst (create_collection_try w s n v d0) = Inl e"
      by (simp add: create_collection_try_def)
    from create_collection_on_failure [OF this] post_reported_failure [of w s n v d0] gc Inl
    show ?thesis by simp
  next
    case (Inr c)
    with gc g have "fst (create_collection_try w s n v d0) =
        Inl (AttributeError (no_attribute_text w (upper d0)))"
      by (simp add: create_collection_try_def)
    from create_collection_on_failure [OF this] post_reported_failure [of w s n v d0] gc Inr
    show ?thesis by simp
  qed
qed

theorem unrecognized_distance_is_400_witness:
  "map_of (distance_enum example_world) (upper ''Manhattan'') = None \<and>
   fst (create_collection example_world (init PNone) ''docs'' 384 ''Manhattan'') =
     Inr [(''success'', PBool False),
          (''error'', PStr ''Failed to create collection 'docs': MANHATTAN'')] \<and>
   fst (create_qdrant_collection example_world (init PNone)
          \<lparr>cc_name = ''docs'', cc_vector_size = 384, cc_distance = ''Manhattan''\<rparr>) =
     Inl (HTTPException 400 (PStr ''Failed to create collection 'docs': MANHATTAN'')) \<and>
   http_status (fst (create_qdrant_collection example_world (init PNone)
          \<lparr>cc_name = ''docs'', cc_vector_size = 384, cc_distance = ''Manhattan''\<rparr>)) = 400"
proof -
  have u: "upper ''Manhattan'' = ''MANHATTAN''" by (simp add: upper_def char_upper_def)
  have h: "map_of (distance_enum example_world) (upper ''Manhattan'') = None"
    by (simp add: u example_world_def)
  have t: "no_attribute_text example_world ''MANHATTAN'' = ''MANHATTAN''"
    by (simp add: example_world_def)
  from unrecognized_distance_is_400 [OF h, of "init PNone" "''docs''" 384] example_client h u t
  show ?thesis by (auto simp: quoted_def)
qed

text \<open>
  Claim C6 as stated asks for an error string that is not empty. The handler stores
  \<open>str(e)\<close> as it is: an exception without text gives the empty error string.
\<close>

theorem quick_status_empty_error_counterexample:
  "get_collections silent_world 1 = Inl (OtherException '''') \<and>
   fst (get_client silent_world (init PNone)) = Inr 1 \<and>
   fst (get_qdrant_status silent_world (init PNone)) =
     Inr [(''status'', PStr ''disconnected''),
          (''error'', PStr ''''),
          (''connection_string'', PNone),
          (''message'', PStr ''Qdrant is not accessible'')] \<and>
   http_status (fst (get_qdrant_status silent_world (init PNone))) = 200"
  by (simp add: get_qdrant_status_def get_qdrant_status_try_def get_client_def init_def
                silent_world_def example_world_def)

text \<open>
  Claim C6, as amended. When acquiring the client or the list call raises \<open>e\<close>, the GET
  handler of \<open>/qdrant/status\<close> returns a body, so the answer has status 200, with status
  \<open>disconnected\<close> and \<open>str(e)\<close> as error.
\<close>

theorem quick_status_reports_failure:
  assumes "fst (get_client w s) = Inl e \<or>
           (\<exists>c. fst (get_client w s) = Inr c \<and> get_collections w c = Inl e)"
  shows "\<exists>body. fst (get_qdrant_status w s) = Inr body \<and>
                http_status (fst (get_qdrant_status w s)) = 200 \<and>
                dict_get body ''status'' = Some (PStr ''disconnected'') \<and>
                dict_get body ''error'' = Some (PStr (str e))"
proof -
  from assms have "fst (get_qdrant_status_try w s) = Inl e"
    by (cases "get_client w s") (auto simp: get_qdrant_status_try_def)
  then show ?thesis
    by (cases "get_qdrant_status_try w s") (simp add: get_qdrant_status_def dict_get_def)
qed

theorem quick_status_reports_failure_witness:
  "get_collections unreachable_world 1 = Inl (ConnectionError ''[Errno 111] Connection refused'') \<and>
   (\<exists>body. fst (get_qdrant_status unreachable_world (init PNone)) = Inr body \<and>
           http_status (fst (get_qdrant_status unreachable_world (init PNone))) = 200 \<and>
           dict_get body ''status'' = Some (PStr ''disconnected'') \<and>
           dict_get body ''error'' = Some (PStr ''[Errno 111] Connection refused''))"
  using quick_status_reports_failure
          [of unreachable_world "init PNone" "ConnectionError ''[Errno 111] Connection refused''"]
        unreachable_client unreachable_listing
  by simp

text \<open>
  Claim C9. \<open>create_collection("docs", 384, "Cosine")\<close>, when the remote call succeeds,
  returns success \<open>True\<close>, the name, the vector size and the distance string as the
  caller wrote it.
\<close>

theorem create_docs_cosine:
  assumes "fst (get_client w s) = Inr c"
    and "map_of (distance_enum w) ''COSINE'' = Some d"
    and "create_collection_call w c ''docs'' 384 d = Inr ()"
  shows "\<exists>r. fst (create_collection w s ''docs'' 384 ''Cosine'') = Inr r \<and>
             dict_get r ''success'' = Some (PBool True) \<and>
             dict_get r ''collection_name'' = Some (PStr ''docs'') \<and>
             dict_get r ''vector_size'' = Some (PInt 384) \<and>
             dict_get r ''distance'' = Some (PStr ''Cosine'')"
proof -
  have u: "upper ''Cosine'' = ''COSINE''" by (simp add: upper_def char_upper_def)
  from assms u have "fst (create_collection_try w s ''docs'' 384 ''Cosine'') =
      Inr [(''success'', PBool True), (''collection_name'', PStr ''docs''),
           (''vector_size'', PInt 384), (''distance'', PStr ''Cosine''),
           (''message'', PStr (''Collection '' @ quoted ''docs'' @ '' created successfully''))]"
    by (cases "get_client w s") (simp add: create_collection_try_def getattr_Distance_def)
  then show ?thesis
    by (cases "create_collection_try w s ''docs'' 384 ''Cosine''")
       (simp add: create_collection_def dict_get_def)
qed

theorem create_docs_cosine_witness:
  "\<exists>r. fst (create_collection example_world (init PNone) ''docs'' 384 ''Cosine'') = Inr r \<and>
       dict_get r ''success'' = Some (PBool True) \<and>
       dict_get r ''collection_name'' = Some (PStr ''docs'') \<and>
       dict_get r ''vector_size'' = Some (PInt 384) \<and>
       dict_get r ''distance'' = Some (PStr ''Cosine'')"
proof -
  have h2: "map_of (distance_enum example_world) ''COSINE'' = Some ''Cosine''"
    by (simp add: example_world_def)
  have h3: "create_collection_call example_world 1 ''docs'' 384 ''Cosine'' = Inr ()"
    by (simp add: example_world_def)
  from create_docs_cosine [OF example_client h2 h3] show ?thesis .
qed

text \<open>
  Claim C10. The report of \<open>check_connection\<close> has status \<open>connected\<close> or
  \<open>disconnected\<close>; its error is \<open>None\<close> exactly when the status is \<open>connected\<close>; a
  \<open>disconnected\<close> report has no server info, no collections and no response time.
\<close>

theorem check_connection_report_invariant:
  "\<exists>d. fst (check_connection w s) = Inr d \<and>
       (dict_get d ''status'' = Some (PStr ''connected'') \<or>
        dict_get d ''status'' = Some (PStr ''disconnected'')) \<and>
       (dict_get d ''error'' = Some PNone \<longleftrightarrow> dict_get d ''status'' = Some (PStr ''connected'')) \<and>
       (dict_get d ''status'' = Some (PStr ''disconnected'') \<longrightarrow>
          dict_get d ''server_info'' = Some PNone \<and>
          dict_get d ''collections'' = Some (PList []) \<and>
          dict_get d ''response_time_ms'' = Some PNone)"
  using check_connection_result [of w s]
  by (auto simp: dict_get_def)


theorem check_connection_report_invariant_witness:
  "\<exists>d. fst (check_connection unreachable_world (init PNone)) = Inr d \<and>
       dict_get d ''status'' = Some (PStr ''disconnected'') \<and>
       dict_get d ''error'' \<noteq> Some PNone \<and>
       dict_get d ''server_info'' = Some PNone \<and>
       dict_get d ''collections'' = Some (PList []) \<and>
       dict_get d ''response_time_ms'' = Some PNone"
  using check_connection_report_invariant [of unreachable_world "init PNone"] unreachable_report
  by (auto simp: dict_get_def)

section \<open>The client is created once\<close>

lemma get_client_cached: "client s = Some c \<Longrightarrow> get_client w s = (Inr c, s)"
  by (simp add: get_client_def)

lemma get_client_created:
  "client s = None \<Longrightarrow> new_client w (connection_params s) = Inr c \<Longrightarrow>
   get_client w s = (Inr c, s\<lparr>client := Some c\<rparr>)"
  by (simp add: get_client_def)

lemma check_connection_state: "snd (check_connection w s) = snd (get_client w s)"
  by (simp add: check_connection_def check_connection_try_def Let_def
           split: prod.splits sum.splits)

lemma get_collections_info_state: "snd (get_collections_info w s) = snd (get_client w s)"
  by (simp add: get_collections_info_def split: prod.splits sum.splits attr.splits)

lemma create_collection_state: "snd (create_collection w s n v d0) = snd (get_client w s)"
  by (simp add: create_collection_def create_collection_try_def split: prod.splits sum.splits)

lemma get_qdrant_status_state: "snd (get_qdrant_status w s) = snd (get_client w s)"
  by (simp add: get_qdrant_status_def get_qdrant_status_try_def
           split: prod.splits sum.splits attr.splits)

lemma check_qdrant_connection_state: "snd (check_qdrant_connection w s) = snd (get_client w s)"
  using check_connection_state [of w s]
  by (cases "check_connection w s") (simp add: check_qdrant_connection_def split: sum.splits)

lemma get_qdrant_collections_state: "snd (get_qdrant_collections w s) = snd (get_client w s)"
  using get_collections_info_state [of w s]
  by (cases "get_collections_info w s") (simp add: get_qdrant_collections_def split: sum.splits)

lemma create_qdrant_collection_state:
  "snd (create_qdrant_collection w s cd) = snd (get_client w s)"
  using create_collection_state [of w s "cc_name cd" "cc_vector_size cd" "cc_distance cd"]
  by (cases "create_collection w s (cc_name cd) (cc_vector_size cd) (cc_distance cd)")
     (simp add: create_qdrant_collection_def create_qdrant_collection_try_def
           split: sum.splits raised.splits)

lemma dispatch_state:
  "snd (dispatch w s r) = (if uses_service r then snd (get_client w s) else s)"
  by (cases r)
     (simp_all add: check_qdrant_connection_state get_qdrant_collections_state
                    create_qdrant_collection_state get_qdrant_status_state)

lemma run_keeps_client: "client s = Some c \<Longrightarrow> run reqs s = s"
  by (induction reqs) (simp_all add: dispatch_state get_client_cached)

lemma get_client_ignores_constructor:
  "client s = Some c \<Longrightarrow> get_client (w\<lparr>new_client := f\<rparr>) s = get_client w s"
  by (simp add: get_client_def)

lemma check_connection_ignores_constructor:
  "client s = Some c \<Longrightarrow> check_connection (w\<lparr>new_client := f\<rparr>) s = check_connection w s"
  by (simp add: check_connection_def check_connection_try_def initial_result_def
                get_client_cached Let_def split: sum.splits)

lemma get_collections_info_ignores_constructor:
  "client s = Some c \<Longrightarrow>
   get_collections_info (w\<lparr>new_client := f\<rparr>) s = get_collections_info w s"
proof -
  have "collect (w\<lparr>new_client := f\<rparr>) h cols acc = collect w h cols acc" for h cols acc
    by (induction cols arbitrary: acc)
       (simp_all add: detail_item_def detail_try_def split: sum.splits)
  then show "client s = Some c \<Longrightarrow>
    get_collections_info (w\<lparr>new_client := f\<rparr>) s = get_collections_info w s"
    by (simp add: get_collections_info_def get_client_cached split: sum.splits attr.splits)
qed

lemma create_collection_ignores_constructor:
  "client s = Some c \<Longrightarrow>
   create_collection (w\<lparr>new_client := f\<rparr>) s n v d0 = create_collection w s n v d0"
  by (auto simp: create_collection_def create_collection_try_def getattr_Distance_def
                get_client_cached split: sum.splits option.splits)

lemma get_qdrant_status_ignores_constructor:
  "client s = Some c \<Longrightarrow> get_qdrant_status (w\<lparr>new_client := f\<rparr>) s = get_qdrant_status w s"
  by (simp add: get_qdrant_status_def get_qdrant_status_try_def get_client_cached
           split: sum.splits attr.splits)

lemma dispatch_ignores_constructor:
  "client s = Some c \<Longrightarrow> dispatch (w\<lparr>new_client := f\<rparr>) s r = dispatch w s r"
  by (cases r)
     (simp_all add: check_qdrant_connection_def get_qdrant_collections_def
        create_qdrant_collection_def create_qdrant_collection_try_def api_info_def
        check_connection_ignores_constructor get_collections_info_ignores_constructor
        create_collection_ignores_constructor get_qdrant_status_ignores_constructor)

text \<open>\<open>close\<close> is the one method that resets the field; no route calls it.\<close>

lemma close_drops_client:
  "client s = Some c \<Longrightarrow> close_call w c = Inr () \<Longrightarrow> client (close w s) = None"
  by (simp add: close_def)

text \<open>
  Claim C8. A new service holds no client. \<open>get_client\<close> creates one when there is none
  and returns the existing one, unchanged, otherwise. Every request that reaches the service
  leaves it in the state \<open>get_client\<close> leaves it in, the others leave it as it is; so
  once a client exists, no run of requests changes the service, and what a request does
  is independent of the constructor, which is not called again.
\<close>

theorem client_created_once:
  "client (init params) = None \<and>
   (client s = None \<and> new_client w (connection_params s) = Inr c \<longrightarrow>
      get_client w s = (Inr c, s\<lparr>client := Some c\<rparr>)) \<and>
   (client s = Some c \<longrightarrow> get_client w s = (Inr c, s)) \<and>
   snd (dispatch w s r) = (if uses_service r then snd (get_client w s) else s) \<and>
   (client s = Some c \<longrightarrow> run reqs s = s) \<and>
   (client s = Some c \<longrightarrow> dispatch (w\<lparr>new_client := f\<rparr>) s r = dispatch w s r)"
  by (simp add: init_def get_client_cached get_client_created dispatch_state run_keeps_client
                dispatch_ignores_constructor)

theorem client_created_once_witness:
  "client (init PNone) = None \<and>
   snd (dispatch unreachable_world (init PNone) GetQdrantStatus) =
     \<lparr>client = Some 1, connection_params = PNone\<rparr> \<and>
   run [(example_world\<lparr>new_client := (\<lambda>params. Inr 2)\<rparr>, GetQdrantConnection),
        (example_world, GetHealth),
        (unreachable_world\<lparr>new_client := (\<lambda>params. Inl (ConnectionError ''down''))\<rparr>,
           GetQdrantCollections)]
       \<lparr>client = Some 1, connection_params = PNone\<rparr> =
     \<lparr>client = Some 1, connection_params = PNone\<rparr>"
proof -
  have n: "new_client unreachable_world (connection_params (init PNone)) = Inr 1"
    by (simp add: unreachable_world_def example_world_def)
  from client_created_once
         [where params = PNone and s = "init PNone" and w = unreachable_world and c = 1
            and r = GetQdrantStatus] n
  have first: "client (init PNone) = None"
    "snd (dispatch unreachable_world (init PNone) GetQdrantStatus) =
       \<lparr>client = Some 1, connection_params = PNone\<rparr>"
    by (simp_all add: init_def)
  from client_created_once
         [where s = "\<lparr>client = Some 1, connection_params = PNone\<rparr>" and c = 1]
  have "run reqs \<lparr>client = Some 1, connection_params = PNone\<rparr> =
          \<lparr>client = Some 1, connection_params = PNone\<rparr>" for reqs
    by simp
  with first show ?thesis by simp
qed

section \<open>The response time\<close>










end
